theory Spec2Isabelle
  imports Main "HOL-Library.Word"
begin

section \<open>FastNoise SmartNode: a shared handle over an out-of-line reference registry\<close>

text \<open>
  The development embeds \<^verbatim>\<open>include/FastNoise/SmartNode.h\<close>. A handle
  \<^verbatim>\<open>SmartNode<T>\<close> has two fields, \<^verbatim>\<open>size_t mReferenceId\<close> and \<^verbatim>\<open>T* mPtr\<close>.
  Handles are objects that are mutated in place and may alias (\<^verbatim>\<open>h = h\<close>), so they
  live in a store indexed by location. The registry \<^verbatim>\<open>SmartNodeManager\<close> is only
  declared in the header: every call a handle makes to it is recorded, in program
  order, in a trace, and what the registry answers (\<^verbatim>\<open>GetLastAllocID\<close>,
  \<^verbatim>\<open>ReferenceCount\<close>) is a parameter of the operation that asks.

  Data model: \<^verbatim>\<open>size_t\<close> and \<^verbatim>\<open>uint64_t\<close> are 64-bit words and \<^verbatim>\<open>long\<close> is a
  64-bit two's complement word (LP64); \<^verbatim>\<open>uint32_t\<close> is a 32-bit word. A pointer is
  the address it holds and \<^verbatim>\<open>nullptr\<close> is address 0. A conversion between
  \<^verbatim>\<open>U*\<close> and \<^verbatim>\<open>T*\<close> of related node classes may move the address (a base
  subobject need not lie where the object starts), and the header does not fix
  the layout of the node classes. Where two pointers are compared, the
  conversions to their common pointer type are parameters of the comparison. In
  the converting constructors and assignments the pointer is carried over as the
  value it is; what is stated of them (null-ness, order of calls, ownership) does
  not depend on the address.
\<close>

subsection \<open>Values\<close>

type_synonym refid = "64 word"
type_synonym ptr = "64 word"

definition nullptr :: ptr where
  "nullptr = 0"

text \<open>\<^verbatim>\<open>static constexpr uint64_t kInvalidReferenceId = (uint64_t)-1;\<close>\<close>

definition kInvalidReferenceId :: refid where
  "kInvalidReferenceId = - 1"

text \<open>
  The template argument \<^verbatim>\<open>T\<close>: a node class, possibly const-qualified.
  \<^verbatim>\<open>std::remove_const<T>::type\<close> drops the qualifier and keeps the class.
\<close>

datatype ctype = CType (cls: nat) (is_const: bool)

fun remove_const :: "ctype \<Rightarrow> ctype" where
  "remove_const (CType c q) = CType c False"

text \<open>
  The destructor value handed to \<^verbatim>\<open>DecReference\<close>, the captureless lambda
  \<^verbatim>\<open>[]( void* ptr ) { ( (U*)ptr )->~T(); }\<close>: \<open>DtorLambda U T\<close> casts its argument to
  \<^verbatim>\<open>U*\<close> and runs the destructor of \<^verbatim>\<open>T\<close> there. Invoking it is recorded as
  \<open>RunDestructor\<close>: the pointer type the object is reached through, the class whose
  destructor is named, and the address.
\<close>

datatype destructorFunc = DtorLambda ctype ctype

datatype dtor_effect = RunDestructor ctype nat ptr

fun invoke :: "destructorFunc \<Rightarrow> ptr \<Rightarrow> dtor_effect" where
  "invoke (DtorLambda U T) p = RunDestructor U (cls T) p"

subsection \<open>Registry calls and the execution trace\<close>

datatype reg_call =
    GetLastAllocID ptr
  | IncReference refid
  | DecReference refid ptr destructorFunc

text \<open>
  An event is a call to the registry or a write to a field of the handle at a
  location; the trace lists them in the order the statements execute.
\<close>

datatype event =
    Reg reg_call
  | WriteRefId nat refid
  | WritePtr nat ptr

record SmartNode =
  mReferenceId :: refid
  mPtr :: ptr

record state =
  heap :: "nat \<Rightarrow> SmartNode"
  trace :: "event list"

definition emit :: "event \<Rightarrow> state \<Rightarrow> state" where
  "emit e s = s\<lparr>trace := trace s @ [e]\<rparr>"

definition set_mReferenceId :: "nat \<Rightarrow> refid \<Rightarrow> state \<Rightarrow> state" where
  "set_mReferenceId l v s =
     emit (WriteRefId l v) (s\<lparr>heap := (heap s)(l := (heap s l)\<lparr>mReferenceId := v\<rparr>)\<rparr>)"

definition set_mPtr :: "nat \<Rightarrow> ptr \<Rightarrow> state \<Rightarrow> state" where
  "set_mPtr l v s =
     emit (WritePtr l v) (s\<lparr>heap := (heap s)(l := (heap s l)\<lparr>mPtr := v\<rparr>)\<rparr>)"

fun reg_calls :: "event list \<Rightarrow> reg_call list" where
  "reg_calls [] = []"
| "reg_calls (Reg c # es) = c # reg_calls es"
| "reg_calls (WriteRefId l v # es) = reg_calls es"
| "reg_calls (WritePtr l v # es) = reg_calls es"

text \<open>The events an operation added to the trace of the state it started from.\<close>

definition emitted :: "state \<Rightarrow> state \<Rightarrow> event list" where
  "emitted s s' = drop (length (trace s)) (trace s')"

text \<open>
  \<open>issued_before a b es\<close>: event \<open>a\<close> occurs in \<open>es\<close>, and no \<open>b\<close> occurs before
  its first occurrence.
\<close>

fun issued_before :: "event \<Rightarrow> event \<Rightarrow> event list \<Rightarrow> bool" where
  "issued_before a b [] = False"
| "issued_before a b (e # es) =
     (if e = b then False else if e = a then True else issued_before a b es)"

text \<open>
  The state of a registry after it has served the calls of a trace, for any
  registry given by its reaction \<open>serve\<close> to one call.
\<close>

definition registry_after :: "(reg_call \<Rightarrow> 'r \<Rightarrow> 'r) \<Rightarrow> 'r \<Rightarrow> event list \<Rightarrow> 'r" where
  "registry_after serve r es = fold serve (reg_calls es) r"

fun dec_ids :: "reg_call list \<Rightarrow> refid list" where
  "dec_ids [] = []"
| "dec_ids (DecReference i p d # cs) = i # dec_ids cs"
| "dec_ids (c # cs) = dec_ids cs"

fun inc_ids :: "reg_call list \<Rightarrow> refid list" where
  "inc_ids [] = []"
| "inc_ids (IncReference i # cs) = i # inc_ids cs"
| "inc_ids (c # cs) = inc_ids cs"

subsection \<open>Private members\<close>

text \<open>\<^verbatim>\<open>static void TryInc( size_t id )\<close>\<close>

definition TryInc :: "refid \<Rightarrow> state \<Rightarrow> state" where
  "TryInc i s =
     (if i \<noteq> kInvalidReferenceId then emit (Reg (IncReference i)) s else s)"

text \<open>\<^verbatim>\<open>void Release()\<close> of \<^verbatim>\<open>SmartNode<T>\<close>, on the handle at \<open>this\<close>.\<close>

definition Release :: "ctype \<Rightarrow> nat \<Rightarrow> state \<Rightarrow> state" where
  "Release T this s =
     (let U = remove_const T;
          s1 = (if mReferenceId (heap s this) \<noteq> kInvalidReferenceId
                then emit (Reg (DecReference (mReferenceId (heap s this))
                                             (mPtr (heap s this)) (DtorLambda U T))) s
                else s);
          s2 = set_mReferenceId this kInvalidReferenceId s1
      in set_mPtr this nullptr s2)"

text \<open>
  \<^verbatim>\<open>explicit SmartNode( T* ptr )\<close>: the member initialisers run in declaration
  order, then the body. \<open>gl\<close> is what \<^verbatim>\<open>SmartNodeManager::GetLastAllocID\<close> answers.
\<close>

definition SmartNode_raw :: "(ptr \<Rightarrow> refid) \<Rightarrow> nat \<Rightarrow> ptr \<Rightarrow> state \<Rightarrow> state" where
  "SmartNode_raw gl this p s =
     (let s1 = emit (Reg (GetLastAllocID p)) s;
          s2 = set_mReferenceId this (gl p) s1;
          s3 = set_mPtr this p s2
      in emit (Reg (IncReference (mReferenceId (heap s3 this)))) s3)"

subsection \<open>Constructors and destructor\<close>

text \<open>\<^verbatim>\<open>constexpr SmartNode( std::nullptr_t = nullptr )\<close>\<close>

definition SmartNode_null :: "nat \<Rightarrow> state \<Rightarrow> state" where
  "SmartNode_null this s =
     set_mPtr this nullptr (set_mReferenceId this kInvalidReferenceId s)"

text \<open>\<^verbatim>\<open>SmartNode( const SmartNode& node )\<close>\<close>

definition SmartNode_copy :: "nat \<Rightarrow> nat \<Rightarrow> state \<Rightarrow> state" where
  "SmartNode_copy this node s =
     (let s1 = TryInc (mReferenceId (heap s node)) s;
          s2 = set_mReferenceId this (mReferenceId (heap s1 node)) s1
      in set_mPtr this (mPtr (heap s2 node)) s2)"

text \<open>\<^verbatim>\<open>template<typename U> SmartNode( const SmartNode<U>& node )\<close>\<close>

definition SmartNode_copy_conv :: "nat \<Rightarrow> nat \<Rightarrow> state \<Rightarrow> state" where
  "SmartNode_copy_conv this node s =
     (let s1 = TryInc (mReferenceId (heap s node)) s;
          s2 = set_mReferenceId this (mReferenceId (heap s1 node)) s1
      in set_mPtr this (mPtr (heap s2 node)) s2)"

text \<open>
  \<^verbatim>\<open>template<typename U> SmartNode( const SmartNode<U>& node, T* ptr )\<close>, with
  \<^verbatim>\<open>assert( ptr )\<close> active: a failed assertion aborts, which is \<open>None\<close>.
\<close>

definition SmartNode_alias :: "nat \<Rightarrow> nat \<Rightarrow> ptr \<Rightarrow> state \<Rightarrow> state option" where
  "SmartNode_alias this node p s =
     (if p = nullptr then None
      else let s1 = TryInc (mReferenceId (heap s node)) s;
               s2 = set_mReferenceId this (mReferenceId (heap s1 node)) s1
           in Some (set_mPtr this p s2))"

text \<open>\<^verbatim>\<open>SmartNode( SmartNode&& node ) noexcept\<close>\<close>

definition SmartNode_move :: "nat \<Rightarrow> nat \<Rightarrow> state \<Rightarrow> state" where
  "SmartNode_move this node s =
     (let s1 = set_mReferenceId this (mReferenceId (heap s node)) s;
          s2 = set_mPtr this (mPtr (heap s1 node)) s1;
          s3 = set_mReferenceId node kInvalidReferenceId s2
      in set_mPtr node nullptr s3)"

text \<open>\<^verbatim>\<open>template<typename U> SmartNode( SmartNode<U>&& node ) noexcept\<close>\<close>

definition SmartNode_move_conv :: "nat \<Rightarrow> nat \<Rightarrow> state \<Rightarrow> state" where
  "SmartNode_move_conv this node s =
     (let s1 = set_mReferenceId this (mReferenceId (heap s node)) s;
          s2 = set_mPtr this (mPtr (heap s1 node)) s1;
          s3 = set_mReferenceId node kInvalidReferenceId s2
      in set_mPtr node nullptr s3)"

text \<open>\<^verbatim>\<open>~SmartNode()\<close>\<close>

definition SmartNode_dtor :: "ctype \<Rightarrow> nat \<Rightarrow> state \<Rightarrow> state" where
  "SmartNode_dtor T this s = Release T this s"

subsection \<open>swap and the assignment operators\<close>

text \<open>
  \<^verbatim>\<open>void swap( SmartNode& node ) noexcept\<close>: \<^verbatim>\<open>std::swap\<close> reads its first
  argument into a temporary, overwrites it with the second, then overwrites the
  second with the temporary.
\<close>

definition swap :: "nat \<Rightarrow> nat \<Rightarrow> state \<Rightarrow> state" where
  "swap this node s =
     (let i = mReferenceId (heap s this);
          s1 = set_mReferenceId this (mReferenceId (heap s node)) s;
          s2 = set_mReferenceId node i s1;
          p = mPtr (heap s2 this);
          s3 = set_mPtr this (mPtr (heap s2 node)) s2
      in set_mPtr node p s3)"

text \<open>\<^verbatim>\<open>SmartNode& operator=( SmartNode&& node ) noexcept\<close>\<close>

definition assign_move :: "nat \<Rightarrow> nat \<Rightarrow> state \<Rightarrow> state" where
  "assign_move this node s = swap this node s"

text \<open>\<^verbatim>\<open>template<typename U> SmartNode& operator=( SmartNode<U>&& node ) noexcept\<close>\<close>

definition assign_move_conv :: "ctype \<Rightarrow> nat \<Rightarrow> nat \<Rightarrow> state \<Rightarrow> state" where
  "assign_move_conv T this node s =
     (if mReferenceId (heap s this) = mReferenceId (heap s node)
      then set_mPtr this (mPtr (heap s node)) s
      else let s1 = Release T this s;
               s2 = set_mReferenceId this (mReferenceId (heap s1 node)) s1;
               s3 = set_mPtr this (mPtr (heap s2 node)) s2;
               s4 = set_mReferenceId node kInvalidReferenceId s3
           in set_mPtr node nullptr s4)"

text \<open>\<^verbatim>\<open>SmartNode& operator=( const SmartNode& node ) noexcept\<close>\<close>

definition assign_copy :: "ctype \<Rightarrow> nat \<Rightarrow> nat \<Rightarrow> state \<Rightarrow> state" where
  "assign_copy T this node s =
     (let s3 = (if mReferenceId (heap s this) \<noteq> mReferenceId (heap s node)
                then let s1 = TryInc (mReferenceId (heap s node)) s;
                         s2 = Release T this s1
                     in set_mReferenceId this (mReferenceId (heap s2 node)) s2
                else s)
      in set_mPtr this (mPtr (heap s3 node)) s3)"

text \<open>\<^verbatim>\<open>template<typename U> SmartNode& operator=( const SmartNode<U>& node ) noexcept\<close>\<close>

definition assign_copy_conv :: "ctype \<Rightarrow> nat \<Rightarrow> nat \<Rightarrow> state \<Rightarrow> state" where
  "assign_copy_conv T this node s =
     (let s3 = (if mReferenceId (heap s this) \<noteq> mReferenceId (heap s node)
                then let s1 = TryInc (mReferenceId (heap s node)) s;
                         s2 = Release T this s1
                     in set_mReferenceId this (mReferenceId (heap s2 node)) s2
                else s)
      in set_mPtr this (mPtr (heap s3 node)) s3)"

text \<open>
  \<^verbatim>\<open>void reset( T* ptr = nullptr ) { *this = SmartNode( ptr ); }\<close>: the temporary
  of type \<^verbatim>\<open>SmartNode<T>\<close> is built at \<open>tmp\<close> by the private constructor, bound by
  the same-type move assignment, and destroyed at the end of the statement.
\<close>

definition reset :: "(ptr \<Rightarrow> refid) \<Rightarrow> ctype \<Rightarrow> nat \<Rightarrow> nat \<Rightarrow> ptr \<Rightarrow> state \<Rightarrow> state" where
  "reset gl T tmp this p s =
     (let s1 = SmartNode_raw gl tmp p s;
          s2 = assign_move this tmp s1
      in SmartNode_dtor T tmp s2)"

subsection \<open>Observers\<close>


definition op_bool :: "SmartNode \<Rightarrow> bool" where
  "op_bool h = (mPtr h \<noteq> nullptr)"



text \<open>
  \<^verbatim>\<open>long use_count() const noexcept\<close> and \<^verbatim>\<open>bool unique() const noexcept\<close>;
  \<open>ReferenceCount\<close> is what \<^verbatim>\<open>SmartNodeManager::ReferenceCount\<close> answers, a
  \<^verbatim>\<open>uint32_t\<close>, and the cast to \<^verbatim>\<open>long\<close> extends it with zeros.
\<close>

definition use_count :: "(refid \<Rightarrow> 32 word) \<Rightarrow> SmartNode \<Rightarrow> 64 word" where
  "use_count ReferenceCount h =
     (if mReferenceId h = kInvalidReferenceId then 0
      else ucast (ReferenceCount (mReferenceId h)))"

definition unique :: "(refid \<Rightarrow> 32 word) \<Rightarrow> SmartNode \<Rightarrow> bool" where
  "unique ReferenceCount h = (use_count ReferenceCount h = 1)"

subsection \<open>The data-model invariant and client programs\<close>

definition handle_inv :: "SmartNode \<Rightarrow> bool" where
  "handle_inv h = ((mReferenceId h = kInvalidReferenceId) = (mPtr h = nullptr))"

definition null_handle :: SmartNode where
  "null_handle = \<lparr>mReferenceId = kInvalidReferenceId, mPtr = nullptr\<rparr>"

text \<open>A store in which every location holds an empty handle, and nothing traced.\<close>

definition empty_state :: state where
  "empty_state = \<lparr>heap = (\<lambda>l. null_handle), trace = []\<rparr>"

text \<open>
  The public operations of \<^verbatim>\<open>SmartNode\<close>, as one step of a client program on the
  store. Template arguments that the operation depends on are given with it, and
  so is the identifier the registry answers to the \<^verbatim>\<open>GetLastAllocID\<close> call of
  \<^verbatim>\<open>reset\<close> (its last argument), which may differ from one call to the next.
\<close>

datatype operation =
    Construct_null nat
  | Construct_copy nat nat
  | Construct_copy_conv nat nat
  | Construct_alias nat nat ptr
  | Construct_move nat nat
  | Construct_move_conv nat nat
  | Destroy ctype nat
  | Assign_move nat nat
  | Assign_move_conv ctype nat nat
  | Assign_copy ctype nat nat
  | Assign_copy_conv ctype nat nat
  | Reset ctype nat nat ptr refid
  | Swap nat nat

fun apply_op :: "operation \<Rightarrow> state \<Rightarrow> state option" where
  "apply_op (Construct_null this) s = Some (SmartNode_null this s)"
| "apply_op (Construct_copy this node) s = Some (SmartNode_copy this node s)"
| "apply_op (Construct_copy_conv this node) s = Some (SmartNode_copy_conv this node s)"
| "apply_op (Construct_alias this node p) s = SmartNode_alias this node p s"
| "apply_op (Construct_move this node) s = Some (SmartNode_move this node s)"
| "apply_op (Construct_move_conv this node) s = Some (SmartNode_move_conv this node s)"
| "apply_op (Destroy T this) s = Some (SmartNode_dtor T this s)"
| "apply_op (Assign_move this node) s = Some (assign_move this node s)"
| "apply_op (Assign_move_conv T this node) s = Some (assign_move_conv T this node s)"
| "apply_op (Assign_copy T this node) s = Some (assign_copy T this node s)"
| "apply_op (Assign_copy_conv T this node) s = Some (assign_copy_conv T this node s)"
| "apply_op (Reset T tmp this p a) s = Some (reset (\<lambda>q. a) T tmp this p s)"
| "apply_op (Swap this node) s = Some (swap this node s)"

text \<open>
  The two operations whose result depends on more than the handles they start
  from: the aliasing constructor is \<open>well_sourced\<close> when its source handle owns
  an allocation, and \<^verbatim>\<open>reset\<close> when the registry answers the sentinel for the
  null pointer and for no other.
\<close>

fun well_sourced :: "operation \<Rightarrow> state \<Rightarrow> bool" where
  "well_sourced (Construct_alias this node p) s =
     (mReferenceId (heap s node) \<noteq> kInvalidReferenceId)"
| "well_sourced (Reset T tmp this p a) s = ((a = kInvalidReferenceId) = (p = nullptr))"
| "well_sourced opn s = True"

text \<open>
  A client program is a list of operations, run in order until one aborts.
  \<open>all_well_sourced\<close> holds when every operation of the program is well sourced
  in the store it is run in.
\<close>

fun run_ops :: "operation list \<Rightarrow> state \<Rightarrow> state option" where
  "run_ops [] s = Some s"
| "run_ops (opn # ops) s =
     (case apply_op opn s of None \<Rightarrow> None | Some s' \<Rightarrow> run_ops ops s')"

fun all_well_sourced :: "operation list \<Rightarrow> state \<Rightarrow> bool" where
  "all_well_sourced [] s = True"
| "all_well_sourced (opn # ops) s =
     (well_sourced opn s \<and>
      (case apply_op opn s of None \<Rightarrow> True | Some s' \<Rightarrow> all_well_sourced ops s'))"

subsection \<open>Example stores\<close>

text \<open>
  \<open>one_handle\<close>: location 0 holds a handle for allocation 7 at address 16, built by
  the private constructor. \<open>two_handles\<close>: location 1 also holds a handle, for
  allocation 9 at address 32. \<open>shared_handles\<close>: location 1 holds a copy of the
  handle at location 0.
\<close>

definition one_handle :: state where
  "one_handle = SmartNode_raw (\<lambda>p. 7) 0 16 empty_state"

definition two_handles :: state where
  "two_handles = SmartNode_raw (\<lambda>p. 9) 1 32 one_handle"

definition shared_handles :: state where
  "shared_handles = SmartNode_copy 1 0 one_handle"


section \<open>Properties\<close>

subsection \<open>Unfolding rules and facts about the machine integers\<close>

lemmas prim_defs = emit_def set_mReferenceId_def set_mPtr_def TryInc_def Release_def
  emitted_def registry_after_def Let_def

lemmas op_defs = SmartNode_raw_def SmartNode_null_def SmartNode_copy_def
  SmartNode_copy_conv_def SmartNode_alias_def SmartNode_move_def SmartNode_move_conv_def
  SmartNode_dtor_def swap_def assign_move_def assign_move_conv_def assign_copy_def
  assign_copy_conv_def reset_def

lemmas example_defs = one_handle_def two_handles_def shared_handles_def empty_state_def
  null_handle_def kInvalidReferenceId_def nullptr_def

lemma sint_ucast_32_64: "sint (ucast (w :: 32 word) :: 64 word) = uint w"
proof -
  have "uint w < 2 ^ 32"
    using uint_bounded [of w] by simp
  then have upper: "uint w < 2 ^ 63"
    by simp
  have lower: "- (2 ^ 63) \<le> uint w"
    by (rule order_trans [OF _ uint_ge_0]) simp
  from lower upper have "signed_take_bit 63 (uint w) = uint w"
    by (rule signed_take_bit_int_eq_self)
  then show ?thesis
    by (simp add: signed_ucast_eq)
qed

lemma ucast_32_64_eq_1: "((ucast (w :: 32 word) :: 64 word) = 1) = (w = 1)"
proof
  assume h: "(ucast w :: 64 word) = 1"
  have "ucast (ucast w :: 64 word) = w"
    by (rule ucast_up_ucast_id) (simp add: is_up)
  with h show "w = 1" by simp
next
  assume "w = 1"
  then show "(ucast w :: 64 word) = 1" by simp
qed

lemma reg_calls_append: "reg_calls (xs @ ys) = reg_calls xs @ reg_calls ys"
  by (induction xs rule: reg_calls.induct) simp_all

lemma SmartNode_overwrite:
  "(h :: SmartNode)\<lparr>mReferenceId := mReferenceId g, mPtr := mPtr g\<rparr> = g"
  "(h :: SmartNode)\<lparr>mReferenceId := i, mPtr := p\<rparr> = \<lparr>mReferenceId = i, mPtr = p\<rparr>"
  by simp_all

lemma SmartNode_mPtr_update:
  "(h :: SmartNode)\<lparr>mPtr := p\<rparr> = \<lparr>mReferenceId = mReferenceId h, mPtr = p\<rparr>"
  by simp

subsection \<open>What each operation leaves in the store\<close>

lemma heap_emit: "heap (emit e s) = heap s"
  by (simp add: emit_def)

lemma heap_TryInc: "heap (TryInc i s) = heap s"
  by (simp add: TryInc_def heap_emit)

lemma heap_set_mReferenceId:
  "heap (set_mReferenceId l v s) = (heap s)(l := (heap s l)\<lparr>mReferenceId := v\<rparr>)"
  by (simp add: set_mReferenceId_def heap_emit)

lemma heap_set_mPtr:
  "heap (set_mPtr l v s) = (heap s)(l := (heap s l)\<lparr>mPtr := v\<rparr>)"
  by (simp add: set_mPtr_def heap_emit)

lemmas heap_prims = heap_emit heap_TryInc heap_set_mReferenceId heap_set_mPtr

lemma heap_Release: "heap (Release T this s) = (heap s)(this := null_handle)"
  by (simp add: Release_def Let_def heap_prims null_handle_def SmartNode_overwrite)

lemma heap_SmartNode_raw:
  "heap (SmartNode_raw gl this p s) = (heap s)(this := \<lparr>mReferenceId = gl p, mPtr = p\<rparr>)"
  by (simp add: SmartNode_raw_def Let_def heap_prims SmartNode_overwrite)

lemma heap_SmartNode_null: "heap (SmartNode_null this s) = (heap s)(this := null_handle)"
  by (simp add: SmartNode_null_def heap_prims null_handle_def SmartNode_overwrite)

lemma heap_SmartNode_copy: "heap (SmartNode_copy this node s) = (heap s)(this := heap s node)"
  by (cases "this = node")
    (simp_all add: SmartNode_copy_def Let_def heap_prims SmartNode_overwrite)

lemma heap_SmartNode_copy_conv:
  "heap (SmartNode_copy_conv this node s) = (heap s)(this := heap s node)"
  by (cases "this = node")
    (simp_all add: SmartNode_copy_conv_def Let_def heap_prims SmartNode_overwrite)

lemma heap_SmartNode_alias:
  "p \<noteq> nullptr \<Longrightarrow> map_option heap (SmartNode_alias this node p s) =
     Some ((heap s)(this := \<lparr>mReferenceId = mReferenceId (heap s node), mPtr = p\<rparr>))"
  by (cases "this = node")
    (simp_all add: SmartNode_alias_def Let_def heap_prims SmartNode_overwrite
      SmartNode_mPtr_update)

lemma heap_SmartNode_move:
  "heap (SmartNode_move this node s) = (heap s)(this := heap s node, node := null_handle)"
  by (cases "this = node")
    (simp_all add: SmartNode_move_def Let_def heap_prims SmartNode_overwrite null_handle_def)

lemma heap_SmartNode_move_conv:
  "heap (SmartNode_move_conv this node s) = (heap s)(this := heap s node, node := null_handle)"
  by (cases "this = node")
    (simp_all add: SmartNode_move_conv_def Let_def heap_prims SmartNode_overwrite
      null_handle_def)

lemma heap_swap:
  "heap (swap this node s) = (heap s)(this := heap s node, node := heap s this)"
  by (cases "this = node") (simp_all add: swap_def Let_def heap_prims SmartNode_overwrite)

lemma heap_assign_move_conv:
  "heap (assign_move_conv T this node s) =
     (if mReferenceId (heap s this) = mReferenceId (heap s node)
      then (heap s)(this := heap s node)
      else (heap s)(this := heap s node, node := null_handle))"
  by (cases "this = node")
    (auto simp add: assign_move_conv_def Let_def heap_prims heap_Release SmartNode_overwrite
      null_handle_def)

lemma heap_assign_copy: "heap (assign_copy T this node s) = (heap s)(this := heap s node)"
  by (cases "this = node")
    (auto simp add: assign_copy_def Let_def heap_prims heap_Release SmartNode_overwrite
      null_handle_def)

lemma heap_assign_copy_conv:
  "heap (assign_copy_conv T this node s) = (heap s)(this := heap s node)"
  by (cases "this = node")
    (auto simp add: assign_copy_conv_def Let_def heap_prims heap_Release SmartNode_overwrite
      null_handle_def)

lemma heap_reset:
  "heap (reset gl T tmp this p s) =
     (heap s)(this := \<lparr>mReferenceId = gl p, mPtr = p\<rparr>, tmp := null_handle)"
  by (cases "this = tmp")
    (simp_all add: reset_def Let_def assign_move_def SmartNode_dtor_def heap_swap heap_Release
      heap_SmartNode_raw)

lemmas heap_ops = heap_Release heap_SmartNode_raw heap_SmartNode_null heap_SmartNode_copy
  heap_SmartNode_copy_conv heap_SmartNode_move heap_SmartNode_move_conv heap_swap
  heap_assign_move_conv heap_assign_copy heap_assign_copy_conv heap_reset

lemma handle_inv_null: "handle_inv null_handle"
  by (simp add: handle_inv_def null_handle_def)

subsection \<open>What the copying operations add to the trace\<close>

text \<open>Operations only append to the trace.\<close>

lemma trace_appended:
  "trace (SmartNode_copy this node s) = trace s @ emitted s (SmartNode_copy this node s)"
  "trace (SmartNode_copy_conv this node s) = trace s @ emitted s (SmartNode_copy_conv this node s)"
  "trace (assign_copy T this node s) = trace s @ emitted s (assign_copy T this node s)"
  "trace (assign_copy_conv T this node s) = trace s @ emitted s (assign_copy_conv T this node s)"
  "trace (assign_move this node s) = trace s @ emitted s (assign_move this node s)"
  "trace (assign_move_conv T this node s) = trace s @ emitted s (assign_move_conv T this node s)"
  "trace (reset gl T tmp this p s) = trace s @ emitted s (reset gl T tmp this p s)"
  by (simp_all add: prim_defs op_defs)

lemma copy_emitted:
  "emitted s (SmartNode_copy this node s) =
     (if mReferenceId (heap s node) = kInvalidReferenceId then []
      else [Reg (IncReference (mReferenceId (heap s node)))])
     @ [WriteRefId this (mReferenceId (heap s node)), WritePtr this (mPtr (heap s node))]"
  by (simp add: prim_defs op_defs)

lemma copy_conv_emitted:
  "emitted s (SmartNode_copy_conv this node s) =
     (if mReferenceId (heap s node) = kInvalidReferenceId then []
      else [Reg (IncReference (mReferenceId (heap s node)))])
     @ [WriteRefId this (mReferenceId (heap s node)), WritePtr this (mPtr (heap s node))]"
  by (simp add: prim_defs op_defs)

lemma alias_emitted:
  "p \<noteq> nullptr \<Longrightarrow> map_option (emitted s) (SmartNode_alias this node p s) =
     Some ((if mReferenceId (heap s node) = kInvalidReferenceId then []
      else [Reg (IncReference (mReferenceId (heap s node)))])
     @ [WriteRefId this (mReferenceId (heap s node)), WritePtr this p])"
  by (simp add: prim_defs op_defs)

lemma assign_copy_emitted_diff:
  "mReferenceId (heap s this) \<noteq> mReferenceId (heap s node) \<Longrightarrow>
   emitted s (assign_copy T this node s) =
     (if mReferenceId (heap s node) = kInvalidReferenceId then []
      else [Reg (IncReference (mReferenceId (heap s node)))])
     @ (if mReferenceId (heap s this) = kInvalidReferenceId then []
        else [Reg (DecReference (mReferenceId (heap s this)) (mPtr (heap s this))
                (DtorLambda (remove_const T) T))])
     @ [WriteRefId this kInvalidReferenceId, WritePtr this nullptr,
        WriteRefId this (mReferenceId (heap s node)), WritePtr this (mPtr (heap s node))]"
  by (cases "this = node") (simp_all add: prim_defs op_defs)

lemma assign_copy_conv_emitted_diff:
  "mReferenceId (heap s this) \<noteq> mReferenceId (heap s node) \<Longrightarrow>
   emitted s (assign_copy_conv T this node s) =
     (if mReferenceId (heap s node) = kInvalidReferenceId then []
      else [Reg (IncReference (mReferenceId (heap s node)))])
     @ (if mReferenceId (heap s this) = kInvalidReferenceId then []
        else [Reg (DecReference (mReferenceId (heap s this)) (mPtr (heap s this))
                (DtorLambda (remove_const T) T))])
     @ [WriteRefId this kInvalidReferenceId, WritePtr this nullptr,
        WriteRefId this (mReferenceId (heap s node)), WritePtr this (mPtr (heap s node))]"
  by (cases "this = node") (simp_all add: prim_defs op_defs)

lemma assign_copy_emitted_same:
  "mReferenceId (heap s this) = mReferenceId (heap s node) \<Longrightarrow>
   emitted s (assign_copy T this node s) = [WritePtr this (mPtr (heap s node))]
   \<and> emitted s (assign_copy_conv T this node s) = [WritePtr this (mPtr (heap s node))]"
  by (simp add: prim_defs op_defs)

section \<open>The claims\<close>

subsection \<open>The identifier is the sentinel exactly when the pointer is null\<close>

text \<open>
  C1, as stated, fails. The aliasing constructor
  \<^verbatim>\<open>SmartNode( const SmartNode<U>& node, T* ptr )\<close> asserts only that \<^verbatim>\<open>ptr\<close> is
  not null and then takes the identifier of \<^verbatim>\<open>node\<close> through \<^verbatim>\<open>TryInc\<close>, which
  accepts the sentinel: built from a default-constructed handle and a non-null
  pointer, the new handle has the sentinel identifier and a non-null pointer. It
  tests true as a \<^verbatim>\<open>bool\<close> while its \<^verbatim>\<open>use_count()\<close> is 0.
\<close>

theorem alias_from_empty_breaks_invariant:
  "SmartNode_alias 1 0 16 (SmartNode_null 0 empty_state) \<noteq> None
   \<and> handle_inv (heap (SmartNode_null 0 empty_state) 0)
   \<and> \<not> handle_inv (heap (the (SmartNode_alias 1 0 16 (SmartNode_null 0 empty_state))) 1)
   \<and> heap (the (SmartNode_alias 1 0 16 (SmartNode_null 0 empty_state))) 1 =
       \<lparr>mReferenceId = kInvalidReferenceId, mPtr = 16\<rparr>
   \<and> op_bool (heap (the (SmartNode_alias 1 0 16 (SmartNode_null 0 empty_state))) 1)
   \<and> use_count (\<lambda>i. 1) (heap (the (SmartNode_alias 1 0 16 (SmartNode_null 0 empty_state))) 1) = 0"
  by (simp add: prim_defs op_defs example_defs handle_inv_def op_bool_def use_count_def)

text \<open>
  One public operation, run in a store whose handles all satisfy the equivalence,
  leaves such a store when it is well sourced.
\<close>

lemma apply_op_preserves_invariant:
  assumes inv: "\<forall>l. handle_inv (heap s l)"
    and run: "apply_op opn s = Some s'"
    and src: "well_sourced opn s"
  shows "\<forall>l. handle_inv (heap s' l)"
proof (cases opn)
  case (Construct_alias this node p)
  with run have p: "p \<noteq> nullptr"
    by (auto simp add: SmartNode_alias_def split: if_splits)
  from heap_SmartNode_alias [OF p, of this node s] run Construct_alias
  have "heap s' = (heap s)(this := \<lparr>mReferenceId = mReferenceId (heap s node), mPtr = p\<rparr>)"
    by auto
  moreover have "handle_inv \<lparr>mReferenceId = mReferenceId (heap s node), mPtr = p\<rparr>"
    using p src Construct_alias by (simp add: handle_inv_def)
  ultimately show ?thesis
    using inv by simp
next
  case (Reset T tmp this p a)
  with run have "heap s' = (heap s)(this := \<lparr>mReferenceId = a, mPtr = p\<rparr>, tmp := null_handle)"
    by (auto simp add: heap_reset)
  moreover have "handle_inv \<lparr>mReferenceId = a, mPtr = p\<rparr>"
    using src Reset by (simp add: handle_inv_def)
  ultimately show ?thesis
    using inv by (simp add: handle_inv_null)
qed (use inv run in \<open>auto simp add: heap_ops assign_move_def SmartNode_dtor_def handle_inv_null\<close>)

text \<open>
  C1, amended. Starting from a store whose handles all satisfy the equivalence
  (the store of empty handles is one), every handle in the store that a program
  of public operations produces satisfies it, provided each aliasing construction
  in the program is given a source handle that is not the sentinel, and each
  \<^verbatim>\<open>reset( ptr )\<close> a pointer for which \<^verbatim>\<open>GetLastAllocID\<close> answers the sentinel
  exactly when the pointer is null (\<open>all_well_sourced\<close>).
\<close>

theorem producible_handles_invariant:
  assumes "\<forall>l. handle_inv (heap s l)"
    and "run_ops ops s = Some s'"
    and "all_well_sourced ops s"
  shows "\<forall>l. handle_inv (heap s' l)"
  using assms
proof (induction ops arbitrary: s)
  case Nil
  then show ?case
    by simp
next
  case (Cons opn ops)
  from Cons.prems(2) obtain s1 where step: "apply_op opn s = Some s1"
    and rest: "run_ops ops s1 = Some s'"
    by (auto split: option.splits)
  from Cons.prems(3) step have src: "well_sourced opn s"
    and srcs: "all_well_sourced ops s1"
    by simp_all
  from apply_op_preserves_invariant [OF Cons.prems(1) step src]
  have "\<forall>l. handle_inv (heap s1 l)" .
  from Cons.IH [OF this rest srcs] show ?case .
qed

theorem producible_handles_invariant_witness:
  "run_ops [Reset (CType 3 False) 2 0 16 7, Construct_alias 1 0 48, Construct_move 3 0]
      empty_state \<noteq> None
   \<and> handle_inv (heap (the (run_ops
        [Reset (CType 3 False) 2 0 16 7, Construct_alias 1 0 48, Construct_move 3 0]
        empty_state)) 1)
   \<and> heap (the (run_ops
        [Reset (CType 3 False) 2 0 16 7, Construct_alias 1 0 48, Construct_move 3 0]
        empty_state)) 1 = \<lparr>mReferenceId = 7, mPtr = 48\<rparr>
   \<and> heap (the (run_ops
        [Reset (CType 3 False) 2 0 16 7, Construct_alias 1 0 48, Construct_move 3 0]
        empty_state)) 3 = \<lparr>mReferenceId = 7, mPtr = 16\<rparr>"
proof -
  let ?ops = "[Reset (CType 3 False) 2 0 16 7, Construct_alias 1 0 48, Construct_move 3 0]"
  have inv: "\<forall>l. handle_inv (heap empty_state l)"
    by (simp add: example_defs handle_inv_def)
  have val: "heap (the (run_ops ?ops empty_state)) 1 = \<lparr>mReferenceId = 7, mPtr = 48\<rparr>"
    and val3: "heap (the (run_ops ?ops empty_state)) 3 = \<lparr>mReferenceId = 7, mPtr = 16\<rparr>"
    and some: "run_ops ?ops empty_state \<noteq> None"
    by (simp_all add: prim_defs op_defs example_defs)
  from some have run: "run_ops ?ops empty_state = Some (the (run_ops ?ops empty_state))"
    by simp
  have src: "all_well_sourced ?ops empty_state"
    by (simp add: prim_defs op_defs example_defs)
  from producible_handles_invariant [OF inv run src]
  have "handle_inv (heap (the (run_ops ?ops empty_state)) 1)"
    by (rule spec)
  with some val val3 show ?thesis
    by simp
qed

subsection \<open>Copying increments first\<close>

text \<open>
  C2. The events of a copy construction (same-type, converting, aliasing) are the
  increment of the source's identifier, when it is not the sentinel, and only
  then the writes by which the new handle adopts identifier and pointer. A copy
  assignment (same-type or converting) from a different identifier issues the
  increment of the source's identifier first, then the decrement of the old
  identifier and the release of the destination, then the adoption. With an
  equal identifier it makes no registry call and only writes the pointer.
\<close>

theorem copy_increments_first:
  "(let nid = mReferenceId (heap s node); np = mPtr (heap s node);
        oid = mReferenceId (heap s this); op = mPtr (heap s this);
        inc = (if nid = kInvalidReferenceId then [] else [Reg (IncReference nid)]);
        dec = (if oid = kInvalidReferenceId then []
               else [Reg (DecReference oid op (DtorLambda (remove_const T) T))]);
        adopt = [WriteRefId this nid, WritePtr this np];
        release = [WriteRefId this kInvalidReferenceId, WritePtr this nullptr]
    in trace (SmartNode_copy this node s) = trace s @ emitted s (SmartNode_copy this node s)
     \<and> trace (SmartNode_copy_conv this node s) =
         trace s @ emitted s (SmartNode_copy_conv this node s)
     \<and> trace (assign_copy T this node s) = trace s @ emitted s (assign_copy T this node s)
     \<and> trace (assign_copy_conv T this node s) =
         trace s @ emitted s (assign_copy_conv T this node s)
     \<and> emitted s (SmartNode_copy this node s) = inc @ adopt
     \<and> emitted s (SmartNode_copy_conv this node s) = inc @ adopt
     \<and> (p \<noteq> nullptr \<longrightarrow> map_option (emitted s) (SmartNode_alias this node p s) =
           Some (inc @ [WriteRefId this nid, WritePtr this p]))
     \<and> (nid \<noteq> kInvalidReferenceId \<longrightarrow>
           issued_before (Reg (IncReference nid)) (WriteRefId this nid)
             (emitted s (SmartNode_copy this node s))
         \<and> issued_before (Reg (IncReference nid)) (WriteRefId this nid)
             (emitted s (SmartNode_copy_conv this node s)))
     \<and> (oid \<noteq> nid \<longrightarrow>
           emitted s (assign_copy T this node s) = inc @ dec @ release @ adopt
         \<and> emitted s (assign_copy_conv T this node s) = inc @ dec @ release @ adopt)
     \<and> (oid \<noteq> nid \<and> nid \<noteq> kInvalidReferenceId \<longrightarrow>
           issued_before (Reg (IncReference nid))
             (Reg (DecReference oid op (DtorLambda (remove_const T) T)))
             (emitted s (assign_copy T this node s))
         \<and> issued_before (Reg (IncReference nid)) (WriteRefId this nid)
             (emitted s (assign_copy T this node s))
         \<and> issued_before (Reg (IncReference nid))
             (Reg (DecReference oid op (DtorLambda (remove_const T) T)))
             (emitted s (assign_copy_conv T this node s))
         \<and> issued_before (Reg (IncReference nid)) (WriteRefId this nid)
             (emitted s (assign_copy_conv T this node s)))
     \<and> (oid = nid \<longrightarrow>
           emitted s (assign_copy T this node s) = [WritePtr this np]
         \<and> reg_calls (emitted s (assign_copy T this node s)) = []
         \<and> emitted s (assign_copy_conv T this node s) = [WritePtr this np]
         \<and> reg_calls (emitted s (assign_copy_conv T this node s)) = []))"
  unfolding Let_def
  apply (intro conjI impI)
  apply (simp_all only: trace_appended)
  apply (simp_all add: copy_emitted copy_conv_emitted alias_emitted assign_copy_emitted_diff
      assign_copy_conv_emitted_diff assign_copy_emitted_same)
  done

theorem copy_increments_first_witness:
  "emitted two_handles (SmartNode_copy 1 0 two_handles) =
     [Reg (IncReference 7), WriteRefId 1 7, WritePtr 1 16]
   \<and> issued_before (Reg (IncReference 7)) (WriteRefId 1 7)
       (emitted two_handles (SmartNode_copy 1 0 two_handles))
   \<and> map_option (emitted two_handles) (SmartNode_alias 1 0 48 two_handles) =
     Some [Reg (IncReference 7), WriteRefId 1 7, WritePtr 1 48]
   \<and> emitted two_handles (assign_copy (CType 3 False) 1 0 two_handles) =
     [Reg (IncReference 7),
      Reg (DecReference 9 32 (DtorLambda (CType 3 False) (CType 3 False))),
      WriteRefId 1 kInvalidReferenceId, WritePtr 1 nullptr, WriteRefId 1 7, WritePtr 1 16]
   \<and> issued_before (Reg (IncReference 7))
       (Reg (DecReference 9 32 (DtorLambda (CType 3 False) (CType 3 False))))
       (emitted two_handles (assign_copy (CType 3 False) 1 0 two_handles))
   \<and> issued_before (Reg (IncReference 7)) (WriteRefId 1 7)
       (emitted two_handles (assign_copy (CType 3 False) 1 0 two_handles))
   \<and> emitted shared_handles (assign_copy (CType 3 False) 1 0 shared_handles) = [WritePtr 1 16]
   \<and> reg_calls (emitted shared_handles (assign_copy (CType 3 False) 1 0 shared_handles)) = []"
  using copy_increments_first [where s = two_handles and this = 1 and node = 0
      and T = "CType 3 False" and p = 48]
    copy_increments_first [where s = shared_handles and this = 1 and node = 0
      and T = "CType 3 False" and p = 48]
  by (simp add: prim_defs op_defs example_defs)

subsection \<open>Destruction\<close>

text \<open>
  C3. Destroying a handle runs \<^verbatim>\<open>Release\<close> once. For a handle that is not the
  sentinel this issues exactly one \<^verbatim>\<open>DecReference\<close>, with the handle's
  identifier, its address, and the destructor value that casts to the
  const-stripped \<^verbatim>\<open>U*\<close> and runs the destructor of \<^verbatim>\<open>T\<close> on that address; for
  the sentinel it issues nothing and leaves any registry as it was. Either way
  the handle ends as the empty handle.
\<close>

theorem dtor_decrements_once:
  "emitted s (SmartNode_dtor T this s) =
     (if mReferenceId (heap s this) = kInvalidReferenceId then []
      else [Reg (DecReference (mReferenceId (heap s this)) (mPtr (heap s this))
                  (DtorLambda (remove_const T) T))])
     @ [WriteRefId this kInvalidReferenceId, WritePtr this nullptr]
   \<and> trace (SmartNode_dtor T this s) = trace s @ emitted s (SmartNode_dtor T this s)
   \<and> reg_calls (emitted s (SmartNode_dtor T this s)) =
     (if mReferenceId (heap s this) = kInvalidReferenceId then []
      else [DecReference (mReferenceId (heap s this)) (mPtr (heap s this))
              (DtorLambda (remove_const T) T)])
   \<and> registry_after serve r (trace (SmartNode_dtor T this s)) =
     (if mReferenceId (heap s this) = kInvalidReferenceId then registry_after serve r (trace s)
      else serve (DecReference (mReferenceId (heap s this)) (mPtr (heap s this))
                    (DtorLambda (remove_const T) T))
             (registry_after serve r (trace s)))
   \<and> invoke (DtorLambda (remove_const T) T) (mPtr (heap s this)) =
       RunDestructor (CType (cls T) False) (cls T) (mPtr (heap s this))
   \<and> heap (SmartNode_dtor T this s) this = null_handle"
  by (cases T) (simp add: prim_defs op_defs reg_calls_append null_handle_def)

theorem dtor_decrements_once_witness:
  "reg_calls (emitted one_handle (SmartNode_dtor (CType 3 True) 0 one_handle)) =
     [DecReference 7 16 (DtorLambda (CType 3 False) (CType 3 True))]
   \<and> reg_calls (emitted empty_state (SmartNode_dtor (CType 3 True) 0 empty_state)) = []
   \<and> invoke (DtorLambda (CType 3 False) (CType 3 True)) 16 = RunDestructor (CType 3 False) 3 16"
  using dtor_decrements_once [where s = one_handle and T = "CType 3 True" and this = 0]
    dtor_decrements_once [where s = empty_state and T = "CType 3 True" and this = 0]
  by (simp add: prim_defs op_defs example_defs)

subsection \<open>Move assignment\<close>

text \<open>
  C4, as stated, fails for the converting move assignment
  \<^verbatim>\<open>operator=( SmartNode<U>&& node )\<close>. Where the identifiers differ it releases
  the destination at once, so the registry is called inside the assignment, and
  it leaves the source as the empty handle; a swap would make no registry call
  and leave the destination's previous state in the source.
\<close>

theorem converting_move_is_not_swap:
  "heap (assign_move_conv (CType 3 False) 0 1 two_handles) 1 \<noteq> heap (swap 0 1 two_handles) 1
   \<and> heap (swap 0 1 two_handles) 1 = \<lparr>mReferenceId = 7, mPtr = 16\<rparr>
   \<and> heap (assign_move_conv (CType 3 False) 0 1 two_handles) 1 = null_handle
   \<and> reg_calls (emitted two_handles (swap 0 1 two_handles)) = []
   \<and> reg_calls (emitted two_handles (assign_move_conv (CType 3 False) 0 1 two_handles)) =
       [DecReference 7 16 (DtorLambda (CType 3 False) (CType 3 False))]"
  by (simp add: prim_defs op_defs example_defs)

text \<open>
  C4, amended. The same-type move assignment is the swap of the two handles: it
  makes no registry call, and the decrement of the destination's previous
  referent is issued when the moved-from handle is destroyed. The converting move
  assignment is not a swap: with different identifiers it issues that decrement
  itself and leaves the source empty, and with equal identifiers it only takes
  the source's pointer and leaves the source as it was. Once the moved-from
  handle has been destroyed the two agree: both handles hold the same state as
  after swap and destruction, the same identifiers have been decremented, and
  the same identifiers (none) incremented.
\<close>

theorem move_assignment_vs_swap:
  assumes "this \<noteq> node"
  shows "(let oid = mReferenceId (heap s this); op = mPtr (heap s this);
        nid = mReferenceId (heap s node);
        dec = (if oid = kInvalidReferenceId then []
               else [DecReference oid op (DtorLambda (remove_const T) T)])
    in assign_move this node s = swap this node s
     \<and> trace (assign_move this node s) = trace s @ emitted s (assign_move this node s)
     \<and> trace (assign_move_conv T this node s) =
         trace s @ emitted s (assign_move_conv T this node s)
     \<and> heap (assign_move this node s) this = heap s node
     \<and> heap (assign_move this node s) node = heap s this
     \<and> reg_calls (emitted s (assign_move this node s)) = []
     \<and> reg_calls (emitted s (SmartNode_dtor T node (assign_move this node s))) = dec
     \<and> (oid \<noteq> nid \<longrightarrow>
           heap (assign_move_conv T this node s) this = heap s node
         \<and> heap (assign_move_conv T this node s) node = null_handle
         \<and> reg_calls (emitted s (assign_move_conv T this node s)) = dec)
     \<and> (oid = nid \<longrightarrow>
           heap (assign_move_conv T this node s) this = heap s node
         \<and> heap (assign_move_conv T this node s) node = heap s node
         \<and> reg_calls (emitted s (assign_move_conv T this node s)) = [])
     \<and> heap (SmartNode_dtor U node (assign_move_conv T this node s)) this =
         heap (SmartNode_dtor T node (swap this node s)) this
     \<and> heap (SmartNode_dtor U node (assign_move_conv T this node s)) node =
         heap (SmartNode_dtor T node (swap this node s)) node
     \<and> dec_ids (reg_calls (emitted s (SmartNode_dtor U node (assign_move_conv T this node s)))) =
         dec_ids (reg_calls (emitted s (SmartNode_dtor T node (swap this node s))))
     \<and> inc_ids (reg_calls (emitted s (SmartNode_dtor U node (assign_move_conv T this node s)))) =
         inc_ids (reg_calls (emitted s (SmartNode_dtor T node (swap this node s)))))"
  using assms unfolding Let_def
  apply (intro conjI impI)
  apply (simp_all add: prim_defs op_defs reg_calls_append null_handle_def SmartNode_overwrite)
  done

theorem move_assignment_vs_swap_witness:
  "heap (assign_move 0 1 two_handles) 0 = \<lparr>mReferenceId = 9, mPtr = 32\<rparr>
   \<and> heap (assign_move 0 1 two_handles) 1 = \<lparr>mReferenceId = 7, mPtr = 16\<rparr>
   \<and> reg_calls (emitted two_handles (assign_move 0 1 two_handles)) = []
   \<and> reg_calls (emitted two_handles
        (SmartNode_dtor (CType 3 False) 1 (assign_move 0 1 two_handles))) =
       [DecReference 7 16 (DtorLambda (CType 3 False) (CType 3 False))]
   \<and> heap (assign_move_conv (CType 3 False) 0 1 two_handles) 0 = \<lparr>mReferenceId = 9, mPtr = 32\<rparr>
   \<and> dec_ids (reg_calls (emitted two_handles
        (SmartNode_dtor (CType 4 False) 1 (assign_move_conv (CType 3 False) 0 1 two_handles)))) = [7]
   \<and> heap (assign_move_conv (CType 3 False) 0 1 shared_handles) 1 = \<lparr>mReferenceId = 7, mPtr = 16\<rparr>
   \<and> reg_calls (emitted shared_handles (assign_move_conv (CType 3 False) 0 1 shared_handles)) = []
   \<and> dec_ids (reg_calls (emitted shared_handles
        (SmartNode_dtor (CType 4 False) 1 (assign_move_conv (CType 3 False) 0 1 shared_handles)))) = [7]"
proof -
  have ne: "(0::nat) \<noteq> 1"
    by simp
  show ?thesis
    using move_assignment_vs_swap [OF ne, where s = two_handles and T = "CType 3 False"
        and U = "CType 4 False"]
      move_assignment_vs_swap [OF ne, where s = shared_handles and T = "CType 3 False"
        and U = "CType 4 False"]
    by (simp add: prim_defs op_defs example_defs)
qed

subsection \<open>Move construction\<close>

text \<open>
  C5. A move construction, same-type or converting, gives the new handle the
  identifier and pointer of the source, leaves the source as the empty handle,
  touches no other handle, and makes no registry call: any registry is in the
  state it was in, and \<^verbatim>\<open>use_count()\<close> of the new handle is what it was for the
  source.
\<close>

theorem move_construct_steals:
  assumes "this \<noteq> node"
  shows "heap (SmartNode_move this node s) this = heap s node
   \<and> heap (SmartNode_move this node s) node = null_handle
   \<and> heap (SmartNode_move this node s) = (heap s)(this := heap s node, node := null_handle)
   \<and> reg_calls (emitted s (SmartNode_move this node s)) = []
   \<and> registry_after serve r (trace (SmartNode_move this node s)) =
       registry_after serve r (trace s)
   \<and> use_count (rc (registry_after serve r (trace (SmartNode_move this node s))))
        (heap (SmartNode_move this node s) this) =
      use_count (rc (registry_after serve r (trace s))) (heap s node)
   \<and> heap (SmartNode_move_conv this node s) this = heap s node
   \<and> heap (SmartNode_move_conv this node s) node = null_handle
   \<and> heap (SmartNode_move_conv this node s) = (heap s)(this := heap s node, node := null_handle)
   \<and> reg_calls (emitted s (SmartNode_move_conv this node s)) = []
   \<and> registry_after serve r (trace (SmartNode_move_conv this node s)) =
       registry_after serve r (trace s)
   \<and> use_count (rc (registry_after serve r (trace (SmartNode_move_conv this node s))))
        (heap (SmartNode_move_conv this node s) this) =
      use_count (rc (registry_after serve r (trace s))) (heap s node)"
  using assms
  apply (intro conjI)
  apply (simp_all only: heap_SmartNode_move heap_SmartNode_move_conv)
  apply (simp_all add: prim_defs op_defs reg_calls_append)
  done

theorem move_construct_steals_witness:
  "heap (SmartNode_move 1 0 one_handle) 1 = \<lparr>mReferenceId = 7, mPtr = 16\<rparr>
   \<and> heap (SmartNode_move 1 0 one_handle) 0 = null_handle
   \<and> reg_calls (emitted one_handle (SmartNode_move 1 0 one_handle)) = []
   \<and> heap (SmartNode_move_conv 1 0 one_handle) 1 = \<lparr>mReferenceId = 7, mPtr = 16\<rparr>
   \<and> heap (SmartNode_move_conv 1 0 one_handle) 0 = null_handle
   \<and> reg_calls (emitted one_handle (SmartNode_move_conv 1 0 one_handle)) = []"
proof -
  have ne: "(1::nat) \<noteq> 0"
    by simp
  show ?thesis
    using move_construct_steals [OF ne, where s = one_handle]
    by (simp add: prim_defs op_defs example_defs)
qed

subsection \<open>Self-assignment\<close>

text \<open>
  C6. The self-assignment \<^verbatim>\<open>h = h\<close> is the copy assignment with the destination
  as its own source: it leaves the store as it was, so the handle keeps its
  identifier and pointer, it makes no registry call, so any registry is in the
  state it was in, and \<^verbatim>\<open>use_count()\<close> is unchanged.
\<close>

theorem self_assignment_noop:
  "heap (assign_copy T h h s) = heap s
   \<and> mReferenceId (heap (assign_copy T h h s) h) = mReferenceId (heap s h)
   \<and> mPtr (heap (assign_copy T h h s) h) = mPtr (heap s h)
   \<and> reg_calls (emitted s (assign_copy T h h s)) = []
   \<and> registry_after serve r (trace (assign_copy T h h s)) = registry_after serve r (trace s)
   \<and> use_count (rc (registry_after serve r (trace (assign_copy T h h s))))
        (heap (assign_copy T h h s) h) =
      use_count (rc (registry_after serve r (trace s))) (heap s h)"
  by (simp add: prim_defs op_defs reg_calls_append)

theorem self_assignment_noop_witness:
  "heap (assign_copy (CType 3 False) 0 0 one_handle) 0 = \<lparr>mReferenceId = 7, mPtr = 16\<rparr>
   \<and> reg_calls (emitted one_handle (assign_copy (CType 3 False) 0 0 one_handle)) = []"
  using self_assignment_noop [where s = one_handle and T = "CType 3 False" and h = 0]
  by (simp add: prim_defs op_defs example_defs)

subsection \<open>Equality\<close>




subsection \<open>use_count and unique\<close>

text \<open>
  C8. For every handle, \<^verbatim>\<open>use_count()\<close> is 0 when the identifier is the sentinel
  and otherwise the registry's \<^verbatim>\<open>ReferenceCount\<close> for that identifier: the value
  read as a \<^verbatim>\<open>long\<close> is the unsigned value the registry answered.
  \<^verbatim>\<open>unique()\<close> is true exactly when \<^verbatim>\<open>use_count()\<close> is 1, that is, when
  the handle is not the sentinel and the registry counts one reference.
\<close>

theorem use_count_unique_spec:
  "use_count rc h =
     (if mReferenceId h = kInvalidReferenceId then 0 else ucast (rc (mReferenceId h)))
   \<and> sint (use_count rc h) =
     (if mReferenceId h = kInvalidReferenceId then 0 else uint (rc (mReferenceId h)))
   \<and> unique rc h = (use_count rc h = 1)
   \<and> unique rc h = (mReferenceId h \<noteq> kInvalidReferenceId \<and> rc (mReferenceId h) = 1)"
  by (simp add: use_count_def unique_def sint_ucast_32_64 ucast_32_64_eq_1)

theorem use_count_unique_spec_witness:
  "use_count (\<lambda>i. if i = 7 then 2 else 1) \<lparr>mReferenceId = 7, mPtr = 16\<rparr> = 2
   \<and> sint (use_count (\<lambda>i. if i = 7 then 2 else 1) \<lparr>mReferenceId = 7, mPtr = 16\<rparr>) = 2
   \<and> unique (\<lambda>i. if i = 7 then 2 else 1) \<lparr>mReferenceId = 7, mPtr = 16\<rparr> = False
   \<and> use_count (\<lambda>i. if i = 7 then 2 else 1) null_handle = 0
   \<and> unique (\<lambda>i. if i = 7 then 2 else 1) \<lparr>mReferenceId = 9, mPtr = 32\<rparr> = True"
  using use_count_unique_spec [of "\<lambda>i. if i = 7 then 2 else 1" "\<lparr>mReferenceId = 7, mPtr = 16\<rparr>"]
    use_count_unique_spec [of "\<lambda>i. if i = 7 then 2 else 1" null_handle]
    use_count_unique_spec [of "\<lambda>i. if i = 7 then 2 else 1" "\<lparr>mReferenceId = 9, mPtr = 32\<rparr>"]
  by (simp add: example_defs)

subsection \<open>The hash specialisation\<close>

text \<open>
  The body of \<^verbatim>\<open>std::hash<FastNoise::SmartNode<T>>::operator()\<close> is
  \<^verbatim>\<open>return std::hash<T*>( node.get() );\<close>: an explicit conversion of the pointer
  to the class \<^verbatim>\<open>std::hash<T*>\<close>, not a call of a \<^verbatim>\<open>std::hash<T*>\<close> object. It
  has no value to embed, so no function of this theory stands for it.
\<close>

subsection \<open>reset\<close>

text \<open>
  C10. \<^verbatim>\<open>reset()\<close> with the null pointer does not take the path of the null
  constructor, which makes no registry call: it builds its temporary with the
  private constructor, which calls \<^verbatim>\<open>GetLastAllocID( nullptr )\<close> and then
  \<^verbatim>\<open>IncReference\<close> on the identifier the registry answered, whatever it is; the
  decrement of the previous referent follows when the temporary is destroyed. The
  handle ends with that identifier and the null pointer.
\<close>

theorem reset_null_touches_registry:
  assumes "tmp \<noteq> this"
  shows "trace (reset gl T tmp this nullptr s) = trace s @ emitted s (reset gl T tmp this nullptr s)
   \<and> reg_calls (emitted s (reset gl T tmp this nullptr s)) =
     [GetLastAllocID nullptr, IncReference (gl nullptr)]
     @ (if mReferenceId (heap s this) = kInvalidReferenceId then []
        else [DecReference (mReferenceId (heap s this)) (mPtr (heap s this))
                (DtorLambda (remove_const T) T)])
   \<and> heap (reset gl T tmp this nullptr s) this = \<lparr>mReferenceId = gl nullptr, mPtr = nullptr\<rparr>
   \<and> reg_calls (emitted s (SmartNode_null this s)) = []"
  using assms by (simp add: prim_defs op_defs reg_calls_append SmartNode_overwrite)

theorem reset_null_touches_registry_witness:
  "reg_calls (emitted one_handle (reset (\<lambda>p. 5) (CType 3 False) 1 0 nullptr one_handle)) =
     [GetLastAllocID nullptr, IncReference 5,
      DecReference 7 16 (DtorLambda (CType 3 False) (CType 3 False))]
   \<and> heap (reset (\<lambda>p. 5) (CType 3 False) 1 0 nullptr one_handle) 0 =
       \<lparr>mReferenceId = 5, mPtr = nullptr\<rparr>
   \<and> reg_calls (emitted empty_state
        (reset (\<lambda>p. kInvalidReferenceId) (CType 3 False) 1 0 nullptr empty_state)) =
     [GetLastAllocID nullptr, IncReference kInvalidReferenceId]"
proof -
  have ne: "(1::nat) \<noteq> 0"
    by simp
  show ?thesis
    using reset_null_touches_registry [OF ne, where s = one_handle and gl = "\<lambda>p. 5"
        and T = "CType 3 False"]
      reset_null_touches_registry [OF ne, where s = empty_state
        and gl = "\<lambda>p. kInvalidReferenceId" and T = "CType 3 False"]
    by (simp add: prim_defs op_defs example_defs)
qed

end
